theory Spec2Isabelle
  imports Main
begin

section \<open>The root layout of the Snoqualmie buyer web application\<close>

text \<open>
  The development follows \<^verbatim>\<open>src/app/layout.tsx\<close>. That module exports two things:
  the constant \<^verbatim>\<open>metadata\<close>, an object literal read by the hosting framework, and
  the function \<^verbatim>\<open>RootLayout\<close>, which returns one JSX expression built from its
  \<^verbatim>\<open>children\<close> argument. Neither contains an assignment, a branch, a loop or a
  \<^verbatim>\<open>throw\<close>, so the object literal becomes a record value and the function a
  definition by a single equation.
\<close>

subsection \<open>The metadata descriptor\<close>

text \<open>
  The object literal of lines 7 to 26. Every nested object is a record with the
  field names of the source; \<^verbatim>\<open>images\<close> is an array and becomes a list. The two
  \<^verbatim>\<open>images\<close> fields live in different objects, hence in different records, and
  are told apart by the record's name.
\<close>

record Image =
  url :: string

record OpenGraph =
  images :: "Image list"

record Twitter =
  card :: string
  images :: "Image list"

record Metadata =
  title :: string
  description :: string
  openGraph :: OpenGraph
  twitter :: Twitter

definition metadata :: Metadata where
  "metadata =
     \<lparr> title = ''Snoqualmie Tourism Virtual Assistant'',
       description = ''The ultimate guide to Historic Downtown Snoqualmie.'',
       openGraph =
         \<lparr> OpenGraph.images =
             [ \<lparr> url = ''/og?title=Snoqualmie Tourism Virtual Assistant'' \<rparr> ] \<rparr>,
       twitter =
         \<lparr> card = ''summary_large_image'',
           Twitter.images =
             [ \<lparr> url = ''/og?title=Snoqualmie Tourism Virtual Assistant'' \<rparr> ] \<rparr> \<rparr>"

subsection \<open>React nodes\<close>

text \<open>
  \<^verbatim>\<open>RootLayout\<close> takes \<^verbatim>\<open>children: React.ReactNode\<close> and returns a JSX
  expression, that is, a React element. A \<^verbatim>\<open>ReactNode\<close> is \<^verbatim>\<open>null\<close>,
  \<^verbatim>\<open>undefined\<close>, a boolean, a string, an array of nodes or an element; a number
  child is rendered as the text of its decimal form and is represented by that
  text. An element \<^verbatim>\<open><T a="v" b>c1 c2</T>\<close> carries its type \<^verbatim>\<open>T\<close> (a lower-case
  host tag or an imported component), its attributes in the order written (an
  attribute without a value is \<^verbatim>\<open>true\<close>), and the list of its child
  expressions in the order written.
\<close>

datatype PropValue = PString string | PBool bool

datatype ElementType = Host string | Component string

datatype ReactNode =
    RNull
  | RUndefined
  | RBool bool
  | RString string
  | RArray "ReactNode list"
  | RElement ElementType "(string \<times> PropValue) list" "ReactNode list"

fun elementType :: "ReactNode \<Rightarrow> ElementType option" where
  "elementType (RElement t ps cs) = Some t"
| "elementType n = None"

fun props :: "ReactNode \<Rightarrow> (string \<times> PropValue) list" where
  "props (RElement t ps cs) = ps"
| "props n = []"

fun childNodes :: "ReactNode \<Rightarrow> ReactNode list" where
  "childNodes (RElement t ps cs) = cs"
| "childNodes n = []"

definition getAttribute :: "ReactNode \<Rightarrow> string \<Rightarrow> PropValue option" where
  "getAttribute n k = map_of (props n) k"

text \<open>The text of a node: its own text, or the texts below it in document order.\<close>

fun textContent :: "ReactNode \<Rightarrow> string" where
  "textContent (RString s) = s"
| "textContent (RArray ns) = concat (map textContent ns)"
| "textContent (RElement t ps cs) = concat (map textContent cs)"
| "textContent n = []"

text \<open>The body of a document: the first child of the root whose tag is \<^verbatim>\<open>body\<close>.\<close>

definition documentBody :: "ReactNode \<Rightarrow> ReactNode option" where
  "documentBody root =
     find (\<lambda>n. elementType n = Some (Host ''body'')) (childNodes root)"

subsection \<open>Class names\<close>

text \<open>
  A \<^verbatim>\<open>className\<close> string is a list of tokens separated by white space.
\<close>

definition is_space :: "char \<Rightarrow> bool" where
  "is_space c \<longleftrightarrow> c \<in> set [CHR '' '', CHR 0x09, CHR 0x0A, CHR 0x0B, CHR 0x0C, CHR 0x0D]"

fun split_ws :: "string \<Rightarrow> string list" where
  "split_ws [] = [[]]"
| "split_ws (c # cs) =
     (if is_space c then [] # split_ws cs
      else (case split_ws cs of
              [] \<Rightarrow> [[c]]
            | w # ws \<Rightarrow> (c # w) # ws))"

definition tokens :: "string \<Rightarrow> string list" where
  "tokens s = filter (\<lambda>w. w \<noteq> []) (split_ws s)"

fun unwords :: "string list \<Rightarrow> string" where
  "unwords [] = []"
| "unwords [w] = w"
| "unwords (w # ws) = w @ '' '' @ unwords ws"

definition is_class_token :: "string \<Rightarrow> bool" where
  "is_class_token w \<longleftrightarrow> w \<noteq> [] \<and> list_all (\<lambda>c. \<not> is_space c) w"

text \<open>
  Modelled from the spec: the class-name merge utility \<^verbatim>\<open>cn\<close> is imported from
  \<^verbatim>\<open>@/lib/utils\<close>, a module of this repository that is not among the sources.
  The specification describes it as a pure function that concatenates and
  deduplicates class strings: the tokens of all arguments, in order, each kept
  once, joined by single spaces. Of a repeated token the last occurrence stays.
\<close>

definition cn :: "string list \<Rightarrow> string" where
  "cn inputs = unwords (remdups (concat (map tokens inputs)))"

definition classList :: "ReactNode \<Rightarrow> string list" where
  "classList n =
     (case getAttribute n ''className'' of
        Some (PString s) \<Rightarrow> tokens s
      | _ \<Rightarrow> [])"

subsection \<open>The layout function\<close>

text \<open>
  Lines 28 to 43. The returned expression mentions, besides \<^verbatim>\<open>children\<close>, the
  imported constant \<^verbatim>\<open>GeistSans.className\<close> of the font package; its value is
  not in the sources, so it is a parameter of the model, fixed for all calls.
  \<^verbatim>\<open>Toaster\<close> and \<^verbatim>\<open>Navbar\<close> are imported components: the function returns
  elements that refer to them and does not call them. White space between the
  tags that contains a line break is dropped by JSX and yields no text node.
\<close>

definition RootLayout :: "string \<Rightarrow> ReactNode \<Rightarrow> ReactNode" where
  "RootLayout GeistSans_className children =
     RElement (Host ''html'') [(''lang'', PString ''en'')]
       [ RElement (Host ''head'') [] [],
         RElement (Host ''body'')
           [(''className'', PString (cn [GeistSans_className, ''antialiased dark'']))]
           [ RElement (Component ''Toaster'')
               [(''position'', PString ''top-center''), (''richColors'', PBool True)] [],
             RElement (Component ''Navbar'') [] [],
             children ] ]"

subsection \<open>A call of the layout in a program state\<close>


section \<open>Auxiliary facts\<close>

subsection \<open>Splitting and joining class names\<close>

lemma split_ws_not_Nil: "split_ws s \<noteq> []"
  by (induction s) (auto split: list.splits)

lemma split_ws_no_space:
  "w \<in> set (split_ws s) \<Longrightarrow> list_all (\<lambda>c. \<not> is_space c) w"
proof (induction s arbitrary: w)
  case Nil
  then show ?case by simp
next
  case (Cons c cs)
  show ?case
  proof (cases "is_space c")
    case True
    with Cons show ?thesis by auto
  next
    case False
    with Cons show ?thesis by (auto split: list.splits)
  qed
qed

lemma tokens_are_class_tokens: "w \<in> set (tokens s) \<Longrightarrow> is_class_token w"
  by (auto simp: tokens_def is_class_token_def intro: split_ws_no_space)

lemma split_ws_append:
  "list_all (\<lambda>c. \<not> is_space c) w \<Longrightarrow>
   split_ws (w @ s) = (w @ hd (split_ws s)) # tl (split_ws s)"
proof (induction w)
  case Nil
  then show ?case using split_ws_not_Nil [of s] by simp
next
  case (Cons c w)
  then show ?case by simp
qed

lemma is_space_blank: "is_space (CHR '' '')"
  by (simp add: is_space_def)

lemma tokens_single: "is_class_token w \<Longrightarrow> tokens w = [w]"
  using split_ws_append [of w "[]"] by (simp add: tokens_def is_class_token_def)

lemma tokens_cons:
  assumes "is_class_token w"
  shows "tokens (w @ CHR '' '' # s) = w # tokens s"
proof -
  from assms have "split_ws (w @ CHR '' '' # s) = w # split_ws s"
    using split_ws_append [of w "CHR '' '' # s"]
    by (simp add: is_class_token_def is_space_blank)
  with assms show ?thesis by (simp add: tokens_def is_class_token_def)
qed

text \<open>Joining class tokens by blanks and splitting again gives the tokens back.\<close>

lemma tokens_unwords:
  "list_all is_class_token ws \<Longrightarrow> tokens (unwords ws) = ws"
proof (induction ws rule: unwords.induct)
  case 1
  show ?case by (simp add: tokens_def)
next
  case (2 w)
  then show ?case by (simp add: tokens_single)
next
  case (3 w v vs)
  then show ?case by (simp add: tokens_cons)
qed

lemma tokens_cn: "tokens (cn inputs) = remdups (concat (map tokens inputs))"
proof -
  have "list_all is_class_token (remdups (concat (map tokens inputs)))"
    by (auto simp: list_all_iff tokens_are_class_tokens)
  then show ?thesis by (simp add: cn_def tokens_unwords)
qed

lemma tokens_antialiased_dark:
  "tokens ''antialiased dark'' = [''antialiased'', ''dark'']"
  by (simp add: tokens_def is_space_def)

subsection \<open>The body of the layout\<close>

lemma documentBody_RootLayout:
  "documentBody (RootLayout fc c) =
     Some (RElement (Host ''body'')
       [(''className'', PString (cn [fc, ''antialiased dark'']))]
       [ RElement (Component ''Toaster'')
           [(''position'', PString ''top-center''), (''richColors'', PBool True)] [],
         RElement (Component ''Navbar'') [] [],
         c ])"
  by (simp add: RootLayout_def documentBody_def)

lemma classList_body:
  "classList (RElement (Host ''body'')
       [(''className'', PString (cn [fc, ''antialiased dark'']))] cs)
     = remdups (tokens fc @ [''antialiased'', ''dark''])"
  by (simp add: classList_def getAttribute_def tokens_cn tokens_antialiased_dark)

section \<open>Properties of the metadata descriptor\<close>

text \<open>
  Claim C2. The title field of the exported metadata descriptor is the literal
  string "Snoqualmie Tourism Virtual Assistant". The descriptor is a constant of
  the module: it has no parameter, so its title is the same whatever children a
  render is given.
\<close>

theorem metadata_title:
  "title metadata = ''Snoqualmie Tourism Virtual Assistant''"
  by (simp add: metadata_def)

text \<open>
  Claim C10. The description field of the exported metadata descriptor is the
  literal string "The ultimate guide to Historic Downtown Snoqualmie."; the
  descriptor is a constant of the module and takes no input.
\<close>

theorem metadata_description:
  "description metadata = ''The ultimate guide to Historic Downtown Snoqualmie.''"
  by (simp add: metadata_def)

text \<open>
  Claim C8. The descriptor has the shape
  \<^verbatim>\<open>{ title, description, openGraph: { images: [{ url }] }, twitter: { card, images: [{ url }] } }\<close>,
  which is the record type \<^typ>\<open>Metadata\<close> of the constant, and every
  \<^verbatim>\<open>url\<close> in it, of which each image list has at least one, is the path
  \<^verbatim>\<open>/og\<close> of the preview-image endpoint followed by a query that sets
  \<^verbatim>\<open>title\<close>.
\<close>

theorem metadata_urls:
  "list_all (\<lambda>i. \<exists>t. url i = ''/og?title='' @ t)
     (OpenGraph.images (openGraph metadata) @ Twitter.images (twitter metadata))
   \<and> OpenGraph.images (openGraph metadata) \<noteq> []
   \<and> Twitter.images (twitter metadata) \<noteq> []"
  by (simp add: metadata_def)

text \<open>
  Claim C9. \<^verbatim>\<open>openGraph.images\<close> and \<^verbatim>\<open>twitter.images\<close> each hold exactly one
  entry; both entries have the url "/og?title=Snoqualmie Tourism Virtual
  Assistant"; the value of its \<^verbatim>\<open>title\<close> query is the descriptor's title; and
  \<^verbatim>\<open>twitter.card\<close> is "summary_large_image".
\<close>

theorem metadata_images:
  "length (OpenGraph.images (openGraph metadata)) = 1
   \<and> length (Twitter.images (twitter metadata)) = 1
   \<and> map url (OpenGraph.images (openGraph metadata))
       = [''/og?title=Snoqualmie Tourism Virtual Assistant'']
   \<and> map url (Twitter.images (twitter metadata))
       = [''/og?title=Snoqualmie Tourism Virtual Assistant'']
   \<and> ''/og?title=Snoqualmie Tourism Virtual Assistant'' = ''/og?title='' @ title metadata
   \<and> card (twitter metadata) = ''summary_large_image''"
  by (simp add: metadata_def)

section \<open>Properties of the layout\<close>

text \<open>
  Claim C1. For every child content \<open>c\<close>, the body element of the tree that
  \<^verbatim>\<open>RootLayout\<close> returns has exactly three children, in this order: the
  notification host (\<^verbatim>\<open>Toaster\<close>), the navigation bar (\<^verbatim>\<open>Navbar\<close>), and
  \<open>c\<close> itself, unchanged, as the last one. When \<open>c\<close> is the single text node
  "Hello", the text content of the last child of the body is "Hello".
\<close>

theorem RootLayout_body_children:
  "map_option childNodes (documentBody (RootLayout fc c))
     = Some [ RElement (Component ''Toaster'')
                [(''position'', PString ''top-center''), (''richColors'', PBool True)] [],
              RElement (Component ''Navbar'') [] [],
              c ]
   \<and> map_option (length \<circ> childNodes) (documentBody (RootLayout fc c)) = Some 3
   \<and> map_option (textContent \<circ> last \<circ> childNodes)
        (documentBody (RootLayout fc (RString ''Hello''))) = Some ''Hello''"
  by (simp add: documentBody_RootLayout)

text \<open>
  Claim C3. For every children input, the class list of the body element
  contains the tokens "dark" and "antialiased"; and when the font class is one
  class name other than these two, the class list is exactly the three tokens
  font class, "antialiased", "dark", after \<^const>\<open>cn\<close> has merged them.
\<close>

theorem RootLayout_body_classList:
  "\<exists>b. documentBody (RootLayout fc c) = Some b
     \<and> ''dark'' \<in> set (classList b)
     \<and> ''antialiased'' \<in> set (classList b)
     \<and> (is_class_token fc \<and> fc \<noteq> ''antialiased'' \<and> fc \<noteq> ''dark''
          \<longrightarrow> classList b = [fc, ''antialiased'', ''dark''])"
proof -
  let ?b = "RElement (Host ''body'')
       [(''className'', PString (cn [fc, ''antialiased dark'']))]
       [ RElement (Component ''Toaster'')
           [(''position'', PString ''top-center''), (''richColors'', PBool True)] [],
         RElement (Component ''Navbar'') [] [],
         c ]"
  have cl: "classList ?b = remdups (tokens fc @ [''antialiased'', ''dark''])"
    by (rule classList_body)
  have "''dark'' \<in> set (classList ?b)" "''antialiased'' \<in> set (classList ?b)"
    unfolding cl by simp_all
  moreover have "classList ?b = [fc, ''antialiased'', ''dark'']"
    if "is_class_token fc" "fc \<noteq> ''antialiased''" "fc \<noteq> ''dark''"
    unfolding cl using that by (simp add: tokens_single)
  ultimately show ?thesis
    using documentBody_RootLayout [of fc c] by blast
qed

theorem RootLayout_body_classList_witness:
  "is_class_token ''__className_geist'' \<and> ''__className_geist'' \<noteq> ''antialiased''
     \<and> ''__className_geist'' \<noteq> ''dark''
     \<and> (\<exists>b. documentBody (RootLayout ''__className_geist'' (RString ''Hello'')) = Some b
           \<and> classList b = [''__className_geist'', ''antialiased'', ''dark''])"
proof -
  have h: "is_class_token ''__className_geist''"
    by (simp add: is_class_token_def is_space_def)
  show ?thesis
    using h RootLayout_body_classList [of "''__className_geist''" "RString ''Hello''"]
    by auto
qed

text \<open>
  Claim C4. For every children input, the root of the returned tree is the
  \<^verbatim>\<open>html\<close> element and it carries the attribute \<^verbatim>\<open>lang="en"\<close>.
\<close>

theorem RootLayout_lang:
  "elementType (RootLayout fc c) = Some (Host ''html'')
   \<and> getAttribute (RootLayout fc c) ''lang'' = Some (PString ''en'')"
  by (simp add: RootLayout_def getAttribute_def)

text \<open>
  Claim C5. When children is empty (\<^verbatim>\<open>null\<close>, \<^verbatim>\<open>undefined\<close> or an empty
  array), \<^verbatim>\<open>RootLayout\<close> returns a tree, namely the document shell with the
  empty value in the last place of the body, and that body still contains the
  notification host and the navigation bar. The function has no error branch:
  its result is always an element.
\<close>

theorem RootLayout_empty_children:
  assumes "c = RNull \<or> c = RUndefined \<or> c = RArray []"
  shows "\<exists>b. RootLayout fc c
               = RElement (Host ''html'') [(''lang'', PString ''en'')]
                   [RElement (Host ''head'') [] [], b]
     \<and> documentBody (RootLayout fc c) = Some b
     \<and> RElement (Component ''Toaster'')
          [(''position'', PString ''top-center''), (''richColors'', PBool True)] []
        \<in> set (childNodes b)
     \<and> RElement (Component ''Navbar'') [] [] \<in> set (childNodes b)
     \<and> last (childNodes b) = c"
  by (simp add: documentBody_RootLayout) (simp add: RootLayout_def)

theorem RootLayout_empty_children_witness:
  "(RNull = RNull \<or> RNull = RUndefined \<or> RNull = RArray [])
   \<and> (\<exists>b. documentBody (RootLayout ''__className_geist'' RNull) = Some b
         \<and> RElement (Component ''Navbar'') [] [] \<in> set (childNodes b)
         \<and> last (childNodes b) = RNull)"
  using RootLayout_empty_children [of RNull "''__className_geist''"] by auto



text \<open>
  Claim C7. In every tree returned by \<^verbatim>\<open>RootLayout\<close>, the notification host,
  the first child of the body, has \<^verbatim>\<open>position\<close> equal to "top-center" and
  \<^verbatim>\<open>richColors\<close> equal to true, and these two are the only options passed to
  it.
\<close>

theorem RootLayout_toaster:
  "\<exists>b t rest. documentBody (RootLayout fc c) = Some b
     \<and> childNodes b = t # rest
     \<and> elementType t = Some (Component ''Toaster'')
     \<and> getAttribute t ''position'' = Some (PString ''top-center'')
     \<and> getAttribute t ''richColors'' = Some (PBool True)
     \<and> map fst (props t) = [''position'', ''richColors'']
     \<and> childNodes t = []"
  by (simp add: documentBody_RootLayout getAttribute_def)

end
